theory Spec2Isabelle
  imports Main "HOL-Library.Sublist"
begin

section \<open>pgcopydb: locating and running the PostgreSQL client tools (pgcmd.c)\<close>

text \<open>
  The theory embeds \<^verbatim>\<open>src/bin/pgcopydb/pgcmd.c\<close>: the version probe
  \<^verbatim>\<open>psql_version\<close>, the resolution of the client tools
  (\<^verbatim>\<open>find_pg_commands\<close> and the three strategies it tries in order) and the
  dump invocation \<^verbatim>\<open>pg_dump_db\<close> with its output reporter.

  The C functions mutate a \<^verbatim>\<open>PostgresPaths\<close> through a pointer, write log
  records and talk to the operating system. Here each function takes the record and returns
  its \<^verbatim>\<open>bool\<close> result, the record as the call leaves it, and the list of
  events of the call in program order: the log records it writes and the calls it makes into
  the operating system.
\<close>

subsection \<open>Data\<close>

text \<open>\<^verbatim>\<open>PostgresPaths\<close> (pgcmd.h): three path buffers and the version buffer.\<close>

record PostgresPaths =
  psql :: string
  pg_dump :: string
  pg_restore :: string
  pg_version :: string

text \<open>
  \<^verbatim>\<open>Program\<close> (runprogram.h), the fields pgcmd.c reads: the exit status, the
  \<^verbatim>\<open>errno\<close> of a failed launch, and the two captured buffers, which are
  \<^verbatim>\<open>NULL\<close> when nothing was captured.
\<close>

record Program =
  returnCode :: int
  error :: int
  stdOut :: "string option"
  stdErr :: "string option"

datatype log_level = LOG_DEBUG | LOG_INFO | LOG_WARN | LOG_ERROR | LOG_FATAL

text \<open>
  An event is a log record (its level and its formatted text) or a call into the operating
  system, with the arguments of the call.
\<close>

datatype event =
    Log log_level string
  | EnvExists string
  | GetEnvCopy string
  | Setenv string string
  | FileExists string
  | Run "string list"
  | SearchPathFirst string
  | SearchPath string
  | DeduplicateSymlinks "string list"

text \<open>
  \<^verbatim>\<open>find_pg_commands\<close> returns to its caller or ends the process with
  \<^verbatim>\<open>exit\<close>.
\<close>

datatype outcome = Returned PostgresPaths | Exited int

subsection \<open>What pgcmd.c takes from elsewhere\<close>

text \<open>
  The constants of \<^verbatim>\<open>defaults.h\<close> and \<^verbatim>\<open>pg_config_manual.h\<close>, the
  process environment, the file system, the programs that are run and the helpers of
  \<^verbatim>\<open>env_utils.c\<close>, \<^verbatim>\<open>file_utils.c\<close>, \<^verbatim>\<open>parsing.c\<close>,
  \<^verbatim>\<open>runprogram.h\<close> and libpgport are parameters of the model. A helper that can fail
  returns an option, \<open>None\<close> for \<^verbatim>\<open>false\<close>. The helpers write log records of
  their own ("errors have already been logged"); those records are not part of the events
  below, which are the ones pgcmd.c itself produces. The world does not change during a
  call: the same program run again with the same arguments completes the same way.

  \<^item> \<open>get_env_copy name size\<close>: the value copied into a buffer of \<open>size\<close> bytes;
  \<^item> \<open>run_program argv\<close>: the completed \<^verbatim>\<open>Program\<close> of
    \<^verbatim>\<open>run_program(argv[0], argv[1], ..., NULL)\<close>;
  \<^item> \<open>execute_subprogram argv setsid\<close>: the completed \<^verbatim>\<open>Program\<close> of
    \<^verbatim>\<open>initialize_program(&program, argv, setsid)\<close> followed by
    \<^verbatim>\<open>execute_subprogram(&program)\<close>;
  \<^item> \<open>parse_version_number out size\<close>: the version string written to a buffer of
    \<open>size\<close> bytes and the numeric version;
  \<^item> \<open>search_path_first name\<close>: the first match on \<^verbatim>\<open>PATH\<close>;
  \<^item> \<open>search_path name\<close>: every match on \<^verbatim>\<open>PATH\<close>, in order;
  \<^item> \<open>search_path_deduplicate_symlinks matches\<close>: the matches with aliases removed;
  \<^item> \<open>join_path_components head tail\<close>: the joined path, as left in the result buffer;
  \<^item> \<open>program_command_line argv\<close>: the full text of the command line of a program;
  \<^item> \<open>strerror errnum\<close>: the text \<^verbatim>\<open>%m\<close> prints for \<open>errno = errnum\<close>.
\<close>

record world =
  MAXPGPATH :: nat
  PG_VERSION_STRING_MAX :: nat
  BUFSIZE :: nat
  EXIT_CODE_PGCTL :: int
  POSTGRES_CONNECT_TIMEOUT :: string
  env_exists :: "string \<Rightarrow> bool"
  get_env_copy :: "string \<Rightarrow> nat \<Rightarrow> string option"
  file_exists :: "string \<Rightarrow> bool"
  run_program :: "string list \<Rightarrow> Program"
  execute_subprogram :: "string list \<Rightarrow> bool \<Rightarrow> Program"
  parse_version_number :: "string option \<Rightarrow> nat \<Rightarrow> (string \<times> int) option"
  search_path_first :: "string \<Rightarrow> string option"
  search_path :: "string \<Rightarrow> string list option"
  search_path_deduplicate_symlinks :: "string list \<Rightarrow> string list option"
  join_path_components :: "string \<Rightarrow> string \<Rightarrow> string"
  program_command_line :: "string list \<Rightarrow> string"
  strerror :: "int \<Rightarrow> string"

subsection \<open>Strings\<close>

text \<open>
  \<^verbatim>\<open>strlcpy(dst, src, size)\<close> leaves in \<open>dst\<close> the first \<open>size - 1\<close>
  bytes of \<open>src\<close>. Every \<open>size\<close> pgcmd.c passes is the positive size of the
  destination buffer.
\<close>

definition strlcpy :: "string \<Rightarrow> nat \<Rightarrow> string" where
  "strlcpy src sz = take (sz - 1) src"

text \<open>The text \<^verbatim>\<open>%d\<close> prints.\<close>

fun decimal :: "nat \<Rightarrow> string" where
  "decimal n = (if n < 10 then [] else decimal (n div 10)) @ [''0123456789'' ! (n mod 10)]"

declare decimal.simps [simp del]

definition printf_d :: "int \<Rightarrow> string" where
  "printf_d i = (if 0 \<le> i then decimal (nat i) else CHR ''-'' # decimal (nat (- i)))"

text \<open>
  The lines of a buffer: a line ends at a newline, and what follows the last newline is a
  line when it is not empty.
\<close>

fun lines_of :: "string \<Rightarrow> string list" where
  "lines_of [] = []"
| "lines_of (c # cs) =
     (if c = CHR 0x0A then [] # lines_of cs
      else (case lines_of cs of [] \<Rightarrow> [[c]] | l # ls \<Rightarrow> (c # l) # ls))"

text \<open>
  Modelled from the spec: \<^verbatim>\<open>splitLines(buffer, linesArray, size)\<close> of
  \<^verbatim>\<open>string_utils.c\<close>, which is not among the sources. It splits the buffer into
  individual lines; a maximum line count bound applies, and excess lines are not reported.
  The result is the lines stored in \<open>linesArray\<close>, and the \<^verbatim>\<open>int\<close> the C
  function returns is their number. \<^verbatim>\<open>log_program_output\<close> reads
  \<open>linesArray\<close> up to the returned count, so the count is at most \<open>size\<close>. A
  \<^verbatim>\<open>NULL\<close> buffer has no lines.
\<close>

definition splitLines :: "string option \<Rightarrow> nat \<Rightarrow> string list" where
  "splitLines buffer sz = (case buffer of None \<Rightarrow> [] | Some b \<Rightarrow> take sz (lines_of b))"

text \<open>
  Modelled from the spec: \<^verbatim>\<open>path_in_same_directory(basePath, fileName, dst)\<close> of
  \<^verbatim>\<open>file_utils.c\<close>, which is not among the sources. The sibling path is derived by
  substituting the file name within the same directory: what follows the last \<open>/\<close> of
  \<open>basePath\<close> is replaced by \<open>fileName\<close>. It is a function of the two strings
  alone and performs no existence check.
\<close>

definition path_in_same_directory :: "string \<Rightarrow> string \<Rightarrow> string" where
  "path_in_same_directory basePath fileName =
     rev (dropWhile (\<lambda>c. c \<noteq> CHR ''/'') (rev basePath)) @ fileName"

text \<open>
  Modelled from the spec: \<^verbatim>\<open>snprintf_program_command_line(prog, buffer, size)\<close>
  of \<^verbatim>\<open>runprogram.h\<close>, which is not among the sources. It renders the full command
  line into a buffer of \<open>size\<close> bytes and returns the number of characters that would
  have been written. The result is the text left in the buffer and the returned number.
\<close>

definition snprintf_program_command_line :: "world \<Rightarrow> string list \<Rightarrow> nat \<Rightarrow> string \<times> nat" where
  "snprintf_program_command_line w args sz =
     (take (sz - 1) (program_command_line w args), length (program_command_line w args))"

subsection \<open>The version probe\<close>

definition psql_version :: "world \<Rightarrow> PostgresPaths \<Rightarrow> bool \<times> PostgresPaths \<times> event list" where
  "psql_version w pgPaths =
     (let prog = run_program w [psql pgPaths, ''--version''] in
      if returnCode prog \<noteq> 0 then
        (False, pgPaths,
         [Run [psql pgPaths, ''--version''],
          Log LOG_ERROR (''Failed to run \"psql --version\" using program \"'' @ psql pgPaths
                         @ ''\": '' @ strerror w (error prog))])
      else
        (case parse_version_number w (stdOut prog) (PG_VERSION_STRING_MAX w) of
           None \<Rightarrow> (False, pgPaths, [Run [psql pgPaths, ''--version'']])
         | Some (pg_version_string, pg_version_num) \<Rightarrow>
             (True,
              pgPaths\<lparr>pg_version := strlcpy pg_version_string (PG_VERSION_STRING_MAX w)\<rparr>,
              [Run [psql pgPaths, ''--version'']])))"

subsection \<open>Sibling tools\<close>

definition set_postgres_commands :: "PostgresPaths \<Rightarrow> PostgresPaths \<times> event list" where
  "set_postgres_commands pgPaths =
     (pgPaths\<lparr>pg_dump := path_in_same_directory (psql pgPaths) ''pg_dump'',
               pg_restore := path_in_same_directory (psql pgPaths) ''pg_restore''\<rparr>,
      [])"

subsection \<open>The strategies\<close>

definition set_psql_from_config_bindir ::
  "world \<Rightarrow> PostgresPaths \<Rightarrow> string \<Rightarrow> bool \<times> PostgresPaths \<times> event list" where
  "set_psql_from_config_bindir w pgPaths pg_config =
     (if \<not> file_exists w pg_config then
        (False, pgPaths,
         [FileExists pg_config,
          Log LOG_DEBUG (''set_psql_from_config_bindir: file not found: \"'' @ pg_config @ ''\"'')])
      else
        let prog = run_program w [pg_config, ''--bindir''] in
        if returnCode prog \<noteq> 0 then
          (False, pgPaths,
           [FileExists pg_config, Run [pg_config, ''--bindir''],
            Log LOG_ERROR (''Failed to run \"pg_config --bindir\" using program \"'' @ pg_config
                           @ ''\": '' @ strerror w (error prog))])
        else
          let lines = splitLines (stdOut prog) 1 in
          if length lines \<noteq> 1 then
            (False, pgPaths,
             [FileExists pg_config, Run [pg_config, ''--bindir''],
              Log LOG_ERROR ''Unable to parse output from pg_config --bindir''])
          else
            let bindir = lines ! 0;
                psql_path = join_path_components w bindir ''psql''
            in
            if \<not> file_exists w psql_path then
              (False, pgPaths,
               [FileExists pg_config, Run [pg_config, ''--bindir''], FileExists psql_path,
                Log LOG_ERROR (''Failed to find psql at \"'' @ psql pgPaths
                               @ ''\" from PG_CONFIG at \"'' @ pg_config @ ''\"'')])
            else
              (True, pgPaths\<lparr>psql := strlcpy psql_path (MAXPGPATH w)\<rparr>,
               [FileExists pg_config, Run [pg_config, ''--bindir''], FileExists psql_path]))"

definition set_psql_from_PG_CONFIG ::
  "world \<Rightarrow> PostgresPaths \<Rightarrow> bool \<times> PostgresPaths \<times> event list" where
  "set_psql_from_PG_CONFIG w pgPaths =
     (if \<not> env_exists w ''PG_CONFIG'' then (False, pgPaths, [EnvExists ''PG_CONFIG''])
      else
        (case get_env_copy w ''PG_CONFIG'' (MAXPGPATH w) of
           None \<Rightarrow> (False, pgPaths, [EnvExists ''PG_CONFIG'', GetEnvCopy ''PG_CONFIG''])
         | Some PG_CONFIG \<Rightarrow>
             if \<not> file_exists w PG_CONFIG then
               (False, pgPaths,
                [EnvExists ''PG_CONFIG'', GetEnvCopy ''PG_CONFIG'', FileExists PG_CONFIG,
                 Log LOG_ERROR (''Failed to find a file for PG_CONFIG environment value \"''
                                @ PG_CONFIG @ ''\"'')])
             else
               (case set_psql_from_config_bindir w pgPaths PG_CONFIG of
                  (False, p1, t1) \<Rightarrow>
                    (False, p1,
                     [EnvExists ''PG_CONFIG'', GetEnvCopy ''PG_CONFIG'', FileExists PG_CONFIG] @ t1)
                | (True, p1, t1) \<Rightarrow>
                    (case psql_version w p1 of
                       (False, p2, t2) \<Rightarrow>
                         (False, p2,
                          [EnvExists ''PG_CONFIG'', GetEnvCopy ''PG_CONFIG'', FileExists PG_CONFIG]
                          @ t1 @ t2
                          @ [Log LOG_FATAL (''Failed to get version info from '' @ psql p2
                                            @ '' --version'')])
                     | (True, p2, t2) \<Rightarrow>
                         (True, p2,
                          [EnvExists ''PG_CONFIG'', GetEnvCopy ''PG_CONFIG'', FileExists PG_CONFIG]
                          @ t1 @ t2
                          @ [Log LOG_DEBUG (''Found psql for PostgreSQL '' @ pg_version p2
                                            @ '' at '' @ psql p2 @ '' following PG_CONFIG'')])))))"

text \<open>
  The loop of the \<^verbatim>\<open>default\<close> branch of \<^verbatim>\<open>set_psql_from_pg_config\<close>,
  over \<open>pg_configs.matches[i]\<close> for \<open>i < pg_configs.found\<close>. Each round works on
  a zeroed local \<^verbatim>\<open>currentPgPaths\<close>, whose \<open>psql\<close> field receives the match.
\<close>

fun set_psql_from_pg_config_loop :: "world \<Rightarrow> string list \<Rightarrow> event list" where
  "set_psql_from_pg_config_loop w [] = []"
| "set_psql_from_pg_config_loop w (m # ms) =
     (case psql_version w \<lparr>psql = strlcpy m (MAXPGPATH w), pg_dump = [], pg_restore = [],
                            pg_version = []\<rparr> of
        (False, currentPgPaths, t) \<Rightarrow>
          t @ [Log LOG_WARN (''Failed to get version info from '' @ psql currentPgPaths
                             @ '' --version'')]
          @ set_psql_from_pg_config_loop w ms
      | (True, currentPgPaths, t) \<Rightarrow>
          t @ [Log LOG_INFO (''Found \"'' @ psql currentPgPaths @ ''\" for pg version ''
                             @ pg_version currentPgPaths)]
          @ set_psql_from_pg_config_loop w ms)"

definition set_psql_from_pg_config ::
  "world \<Rightarrow> PostgresPaths \<Rightarrow> bool \<times> PostgresPaths \<times> event list" where
  "set_psql_from_pg_config w pgPaths =
     (case search_path w ''pg_config'' of
        None \<Rightarrow> (False, pgPaths, [SearchPath ''pg_config''])
      | Some all_pg_configs \<Rightarrow>
          (case search_path_deduplicate_symlinks w all_pg_configs of
             None \<Rightarrow>
               (False, pgPaths,
                [SearchPath ''pg_config'', DeduplicateSymlinks all_pg_configs,
                 Log LOG_ERROR
                   ''Failed to resolve symlinks found in PATH entries, see above for details''])
           | Some pg_configs \<Rightarrow>
               (case length pg_configs of
                  0 \<Rightarrow>
                    (False, pgPaths,
                     [SearchPath ''pg_config'', DeduplicateSymlinks all_pg_configs,
                      Log LOG_WARN ''Failed to find either psql or pg_config in PATH''])
                | Suc 0 \<Rightarrow>
                    (case set_psql_from_config_bindir w pgPaths (pg_configs ! 0) of
                       (False, p1, t1) \<Rightarrow>
                         (False, p1,
                          [SearchPath ''pg_config'', DeduplicateSymlinks all_pg_configs] @ t1)
                     | (True, p1, t1) \<Rightarrow>
                         (case psql_version w p1 of
                            (False, p2, t2) \<Rightarrow>
                              (False, p2,
                               [SearchPath ''pg_config'', DeduplicateSymlinks all_pg_configs]
                               @ t1 @ t2
                               @ [Log LOG_FATAL (''Failed to get version info from '' @ psql p2
                                                 @ '' --version'')])
                          | (True, p2, t2) \<Rightarrow>
                              (True, p2,
                               [SearchPath ''pg_config'', DeduplicateSymlinks all_pg_configs]
                               @ t1 @ t2
                               @ [Log LOG_DEBUG (''Found psql for PostgreSQL '' @ pg_version p2
                                                 @ '' at '' @ psql p2
                                                 @ '' from pg_config found in PATH at \"''
                                                 @ pg_configs ! 0 @ ''\"'')])))
                | Suc (Suc n) \<Rightarrow>
                    (False, pgPaths,
                     [SearchPath ''pg_config'', DeduplicateSymlinks all_pg_configs,
                      Log LOG_INFO ''Found more than one pg_config entry in current PATH:'']
                     @ set_psql_from_pg_config_loop w pg_configs
                     @ [Log LOG_INFO ''HINT: export PG_CONFIG to a specific pg_config entry'']))))"

subsection \<open>Resolution\<close>

text \<open>
  \<^verbatim>\<open>search_path_first("psql", pgPaths->psql, LOG_WARN)\<close> writes the match into
  \<open>pgPaths->psql\<close> when there is one; its third argument is the level of the record
  the helper writes when there is none.
\<close>

definition find_pg_commands :: "world \<Rightarrow> PostgresPaths \<Rightarrow> outcome \<times> event list" where
  "find_pg_commands w pgPaths =
     (case set_psql_from_PG_CONFIG w pgPaths of
        (True, p1, t1) \<Rightarrow>
          (case set_postgres_commands p1 of (p', t') \<Rightarrow> (Returned p', t1 @ t'))
      | (False, p1, t1) \<Rightarrow>
          (case search_path_first w ''psql'' of
             Some found \<Rightarrow>
               (case psql_version w (p1\<lparr>psql := found\<rparr>) of
                  (False, p2, t2) \<Rightarrow>
                    (Exited (EXIT_CODE_PGCTL w), t1 @ [SearchPathFirst ''psql''] @ t2)
                | (True, p2, t2) \<Rightarrow>
                    (case set_postgres_commands p2 of
                       (p', t') \<Rightarrow> (Returned p', t1 @ [SearchPathFirst ''psql''] @ t2 @ t')))
           | None \<Rightarrow>
               (case set_psql_from_pg_config w p1 of
                  (True, p3, t3) \<Rightarrow>
                    (case set_postgres_commands p3 of
                       (p', t') \<Rightarrow> (Returned p', t1 @ [SearchPathFirst ''psql''] @ t3 @ t'))
                | (False, p3, t3) \<Rightarrow>
                    (Exited (EXIT_CODE_PGCTL w), t1 @ [SearchPathFirst ''psql''] @ t3))))"

subsection \<open>The dump invocation\<close>

definition log_program_output :: "world \<Rightarrow> Program \<Rightarrow> log_level \<Rightarrow> log_level \<Rightarrow> event list" where
  "log_program_output w prog outLogLevel errorLogLevel =
     (case stdOut prog of
        None \<Rightarrow> []
      | Some out \<Rightarrow> map (Log outLogLevel) (splitLines (Some out) (BUFSIZE w)))
     @ (case stdErr prog of
          None \<Rightarrow> []
        | Some err \<Rightarrow> map (Log errorLogLevel) (splitLines (Some err) (BUFSIZE w)))"

definition pg_dump_db ::
  "world \<Rightarrow> PostgresPaths \<Rightarrow> string \<Rightarrow> string \<Rightarrow> string \<Rightarrow> bool \<times> event list" where
  "pg_dump_db w pgPaths pguri section_name filename =
     (let args = [pg_dump pgPaths, ''-Fc'', ''-d'', pguri, ''--section'', section_name,
                  ''--file'', filename]
      in
      case snprintf_program_command_line w args (BUFSIZE w) of
        (command, commandSize) \<Rightarrow>
          let command_log =
                (if commandSize \<ge> BUFSIZE w then Log LOG_INFO (command @ ''...'')
                 else Log LOG_INFO command);
              program = execute_subprogram w args False
          in
          if returnCode program \<noteq> 0 then
            (False,
             [Setenv ''PGCONNECT_TIMEOUT'' (POSTGRES_CONNECT_TIMEOUT w), command_log, Run args,
              Log LOG_ERROR (''Failed to run pg_dump: exit code ''
                             @ printf_d (returnCode program))]
             @ log_program_output w program LOG_ERROR LOG_ERROR)
          else
            (True,
             [Setenv ''PGCONNECT_TIMEOUT'' (POSTGRES_CONNECT_TIMEOUT w), command_log, Run args]))"

text \<open>The text of a log record; other events have none.\<close>

fun log_text :: "event \<Rightarrow> string" where
  "log_text (Log level text) = text"
| "log_text _ = []"

subsection \<open>Reading a list of events\<close>

fun is_Run :: "event \<Rightarrow> bool" where
  "is_Run (Run argv) = True"
| "is_Run _ = False"

fun is_Log_at :: "log_level \<Rightarrow> event \<Rightarrow> bool" where
  "is_Log_at level (Log level' text) = (level = level')"
| "is_Log_at level _ = False"

subsection \<open>An example installation\<close>

text \<open>
  A machine on which the theorems below are run. It has a working \<open>psql\<close> 14.9 in
  \<open>/usr/bin\<close>, in \<open>/usr/lib/postgresql/14/bin\<close> and in \<open>/opt/pg/bin\<close>, and a
  broken one in \<open>/usr/local/bin\<close>. \<open>/usr/bin/pg_config\<close> reports
  \<open>/usr/lib/postgresql/14/bin\<close> and \<open>/usr/local/bin/pg_config\<close> reports
  \<open>/usr/local/bin\<close>; \<open>/opt/pg/bin/pg_config\<close> prints two lines
  for \<open>--bindir\<close> and fails on \<open>--version\<close>. \<open>pg_dump\<close> and
  \<open>pg_restore\<close> are installed in \<open>/opt/pg/bin\<close> only; that
  \<open>pg_dump\<close> fails when the server is \<open>postgres://down\<close>. The environment
  variable \<open>PG_CONFIG\<close>, the first \<open>psql\<close> on the search path and the
  \<open>pg_config\<close> entries of the search path are the three parameters.
\<close>

definition example_run :: "string list \<Rightarrow> Program" where
  "example_run argv =
     (if argv = [''/usr/bin/psql'', ''--version'']
         \<or> argv = [''/usr/lib/postgresql/14/bin/psql'', ''--version'']
         \<or> argv = [''/opt/pg/bin/psql'', ''--version''] then
        \<lparr>returnCode = 0, error = 0, stdOut = Some ''psql (PostgreSQL) 14.9\<newline>'',
         stdErr = None\<rparr>
      else if argv = [''/usr/bin/pg_config'', ''--bindir''] then
        \<lparr>returnCode = 0, error = 0, stdOut = Some ''/usr/lib/postgresql/14/bin\<newline>'',
         stdErr = None\<rparr>
      else if argv = [''/usr/local/bin/pg_config'', ''--bindir''] then
        \<lparr>returnCode = 0, error = 0, stdOut = Some ''/usr/local/bin\<newline>'', stdErr = None\<rparr>
      else if argv = [''/usr/bin/pg_config'', ''--version''] then
        \<lparr>returnCode = 0, error = 0, stdOut = Some ''PostgreSQL 14.9\<newline>'', stdErr = None\<rparr>
      else if argv = [''/opt/pg/bin/pg_config'', ''--bindir''] then
        \<lparr>returnCode = 0, error = 0,
         stdOut = Some ''/opt/pg/bin\<newline>/opt/pg/lib\<newline>'', stdErr = None\<rparr>
      else if argv = [''/usr/local/bin/psql'', ''--version''] then
        \<lparr>returnCode = 1, error = 0, stdOut = None,
         stdErr = Some ''psql: cannot start\<newline>''\<rparr>
      else if argv = [''/opt/pg/bin/pg_config'', ''--version''] then
        \<lparr>returnCode = 1, error = 0, stdOut = None,
         stdErr = Some ''pg_config: invalid argument\<newline>''\<rparr>
      else if hd argv = ''/opt/pg/bin/pg_dump'' then
        (if ''postgres://down'' \<in> set argv then
           \<lparr>returnCode = 1, error = 0, stdOut = Some ''pg_dump: dumping\<newline>'',
            stdErr = Some ''pg_dump: error: connection failed\<newline>pg_dump: detail\<newline>''\<rparr>
         else
           \<lparr>returnCode = 0, error = 0, stdOut = None, stdErr = None\<rparr>)
      else
        \<lparr>returnCode = 127, error = 2, stdOut = None, stdErr = None\<rparr>)"

definition example_parse :: "string option \<Rightarrow> nat \<Rightarrow> (string \<times> int) option" where
  "example_parse out sz =
     (if out = Some ''psql (PostgreSQL) 14.9\<newline>'' \<or> out = Some ''PostgreSQL 14.9\<newline>''
      then Some (''14.9'', 140009) else None)"

definition example_world :: "string option \<Rightarrow> string option \<Rightarrow> string list \<Rightarrow> world" where
  "example_world hint first_psql configs =
     \<lparr>MAXPGPATH = 1024, PG_VERSION_STRING_MAX = 12, BUFSIZE = 1024, EXIT_CODE_PGCTL = 5,
      POSTGRES_CONNECT_TIMEOUT = ''10'',
      env_exists = (\<lambda>name. name = ''PG_CONFIG'' \<and> hint \<noteq> None),
      get_env_copy = (\<lambda>name sz. if name = ''PG_CONFIG'' then hint else None),
      file_exists = (\<lambda>f. f \<in> set [''/usr/bin/psql'', ''/usr/local/bin/psql'',
                                     ''/usr/local/bin/pg_config'',
                                     ''/usr/bin/pg_config'', ''/usr/lib/postgresql/14/bin/psql'',
                                     ''/opt/pg/bin/pg_config'', ''/opt/pg/bin/psql'',
                                     ''/opt/pg/bin/pg_dump'', ''/opt/pg/bin/pg_restore'']),
      run_program = example_run,
      execute_subprogram = (\<lambda>argv setsid. example_run argv),
      parse_version_number = example_parse,
      search_path_first = (\<lambda>name. if name = ''psql'' then first_psql else None),
      search_path = (\<lambda>name. if name = ''pg_config'' then Some configs else Some []),
      search_path_deduplicate_symlinks = (\<lambda>ms. Some (remdups ms)),
      join_path_components = (\<lambda>h t. h @ ''/'' @ t),
      program_command_line = (\<lambda>argv. concat (map (\<lambda>a. '' '' @ a) argv)),
      strerror = (\<lambda>e. if e = 2 then ''No such file or directory'' else ''Unknown error'')\<rparr>"

definition no_paths :: PostgresPaths where
  "no_paths = \<lparr>psql = [], pg_dump = [], pg_restore = [], pg_version = []\<rparr>"

lemmas example_defs =
  example_world_def example_run_def example_parse_def no_paths_def strlcpy_def

section \<open>Properties\<close>

subsection \<open>The version probe\<close>


lemma psql_version_ok_iff:
  "fst (psql_version w p) \<longleftrightarrow>
     returnCode (run_program w [psql p, ''--version'']) = 0 \<and>
     parse_version_number w (stdOut (run_program w [psql p, ''--version'']))
       (PG_VERSION_STRING_MAX w) \<noteq> None"
  by (auto simp: psql_version_def Let_def split: if_splits option.splits prod.splits)

lemma psql_version_no_search:
  "psql_version w p = (ok, p', t) \<Longrightarrow> SearchPath n \<notin> set t"
  by (auto simp: psql_version_def Let_def split: if_splits option.splits prod.splits)

lemma set_psql_from_config_bindir_no_search:
  "set_psql_from_config_bindir w p c = (ok, p', t) \<Longrightarrow> SearchPath n \<notin> set t"
  by (auto simp: set_psql_from_config_bindir_def Let_def split: if_splits)

lemma set_psql_from_PG_CONFIG_no_search:
  "set_psql_from_PG_CONFIG w p = (ok, p', t) \<Longrightarrow> SearchPath n \<notin> set t"
  unfolding set_psql_from_PG_CONFIG_def
  by (auto split: if_splits option.splits prod.splits bool.splits
           dest: psql_version_no_search set_psql_from_config_bindir_no_search)

text \<open>
  Claim C10. The version probe changes no field of the record other than the version
  string. It returns true exactly when the run of \<open>psql --version\<close> ended with status
  zero and its output was parsed. When it returns false the whole record, the version string
  it held included, is as it was before the call.
\<close>

theorem psql_version_frame:
  "psql (fst (snd (psql_version w p))) = psql p
   \<and> pg_dump (fst (snd (psql_version w p))) = pg_dump p
   \<and> pg_restore (fst (snd (psql_version w p))) = pg_restore p
   \<and> (fst (psql_version w p) \<longleftrightarrow>
        returnCode (run_program w [psql p, ''--version'']) = 0
        \<and> parse_version_number w (stdOut (run_program w [psql p, ''--version'']))
             (PG_VERSION_STRING_MAX w) \<noteq> None)
   \<and> (\<not> fst (psql_version w p) \<longrightarrow> fst (snd (psql_version w p)) = p)"
  by (auto simp: psql_version_def Let_def split: if_splits option.splits prod.splits)

theorem psql_version_frame_witness:
  "\<not> fst (psql_version (example_world None None [])
            \<lparr>psql = ''/usr/local/bin/psql'', pg_dump = ''/usr/local/bin/pg_dump'',
             pg_restore = ''/usr/local/bin/pg_restore'', pg_version = ''13.2''\<rparr>)
   \<and> fst (snd (psql_version (example_world None None [])
            \<lparr>psql = ''/usr/local/bin/psql'', pg_dump = ''/usr/local/bin/pg_dump'',
             pg_restore = ''/usr/local/bin/pg_restore'', pg_version = ''13.2''\<rparr>))
     = \<lparr>psql = ''/usr/local/bin/psql'', pg_dump = ''/usr/local/bin/pg_dump'',
        pg_restore = ''/usr/local/bin/pg_restore'', pg_version = ''13.2''\<rparr>"
proof -
  let ?w = "example_world None None []"
  let ?p = "\<lparr>psql = ''/usr/local/bin/psql'', pg_dump = ''/usr/local/bin/pg_dump'',
             pg_restore = ''/usr/local/bin/pg_restore'', pg_version = ''13.2''\<rparr>"
  have failed: "\<not> fst (psql_version ?w ?p)"
    by (simp add: psql_version_def example_defs)
  with psql_version_frame [of ?w ?p] show ?thesis
    by blast
qed

subsection \<open>Resolution\<close>

text \<open>
  Claim C4. When the explicit hint gave no result and \<open>psql\<close> is found directly on the
  search path but its version probe fails, \<open>find_pg_commands\<close> ends the process with
  \<open>EXIT_CODE_PGCTL\<close> and never searches the path for \<open>pg_config\<close>. The exit code
  is the one used when \<open>psql\<close> is not on the search path and the indirect strategy
  fails, that is when no strategy yields a result.
\<close>

theorem direct_probe_failure_exits:
  assumes "set_psql_from_PG_CONFIG w p = (False, p1, t1)"
  shows "(search_path_first w ''psql'' = Some found
            \<and> \<not> fst (psql_version w (p1\<lparr>psql := found\<rparr>))
          \<longrightarrow> fst (find_pg_commands w p) = Exited (EXIT_CODE_PGCTL w)
              \<and> (\<forall>n. SearchPath n \<notin> set (snd (find_pg_commands w p))))
       \<and> (search_path_first w ''psql'' = None \<and> \<not> fst (set_psql_from_pg_config w p1)
          \<longrightarrow> fst (find_pg_commands w p) = Exited (EXIT_CODE_PGCTL w))"
proof (intro conjI impI allI)
  assume a: "search_path_first w ''psql'' = Some found
               \<and> \<not> fst (psql_version w (p1\<lparr>psql := found\<rparr>))"
  obtain p2 t2 where pv: "psql_version w (p1\<lparr>psql := found\<rparr>) = (False, p2, t2)"
    using a by (cases "psql_version w (p1\<lparr>psql := found\<rparr>)") auto
  have fp: "find_pg_commands w p
              = (Exited (EXIT_CODE_PGCTL w), t1 @ [SearchPathFirst ''psql''] @ t2)"
    using assms a pv by (simp add: find_pg_commands_def)
  show "fst (find_pg_commands w p) = Exited (EXIT_CODE_PGCTL w)"
    using fp by simp
  fix n
  show "SearchPath n \<notin> set (snd (find_pg_commands w p))"
    using fp set_psql_from_PG_CONFIG_no_search [OF assms, of n]
      psql_version_no_search [OF pv, of n]
    by simp
next
  assume b: "search_path_first w ''psql'' = None \<and> \<not> fst (set_psql_from_pg_config w p1)"
  obtain p3 t3 where sp: "set_psql_from_pg_config w p1 = (False, p3, t3)"
    using b by (cases "set_psql_from_pg_config w p1") auto
  show "fst (find_pg_commands w p) = Exited (EXIT_CODE_PGCTL w)"
    using assms b sp by (simp add: find_pg_commands_def)
qed

theorem direct_probe_failure_exits_witness:
  "fst (find_pg_commands (example_world None (Some ''/usr/local/bin/psql'') []) no_paths)
     = Exited 5
   \<and> SearchPath ''pg_config''
       \<notin> set (snd (find_pg_commands (example_world None (Some ''/usr/local/bin/psql'') [])
                     no_paths))
   \<and> fst (find_pg_commands (example_world None None []) no_paths) = Exited 5"
proof -
  let ?w1 = "example_world None (Some ''/usr/local/bin/psql'') []"
  let ?w2 = "example_world None None []"
  have h1: "set_psql_from_PG_CONFIG ?w1 no_paths = (False, no_paths, [EnvExists ''PG_CONFIG''])"
    by (simp add: set_psql_from_PG_CONFIG_def example_defs)
  have d1: "search_path_first ?w1 ''psql'' = Some ''/usr/local/bin/psql''
              \<and> \<not> fst (psql_version ?w1 (no_paths\<lparr>psql := ''/usr/local/bin/psql''\<rparr>))"
    by (simp add: psql_version_def example_defs)
  have h2: "set_psql_from_PG_CONFIG ?w2 no_paths = (False, no_paths, [EnvExists ''PG_CONFIG''])"
    by (simp add: set_psql_from_PG_CONFIG_def example_defs)
  have d2: "search_path_first ?w2 ''psql'' = None
              \<and> \<not> fst (set_psql_from_pg_config ?w2 no_paths)"
    by (simp add: set_psql_from_pg_config_def example_defs)
  have c1: "EXIT_CODE_PGCTL ?w1 = 5" and c2: "EXIT_CODE_PGCTL ?w2 = 5"
    by (simp_all add: example_defs)
  from direct_probe_failure_exits [OF h1, of "''/usr/local/bin/psql''"] d1 c1
  have "fst (find_pg_commands ?w1 no_paths) = Exited 5
          \<and> SearchPath ''pg_config'' \<notin> set (snd (find_pg_commands ?w1 no_paths))"
    by simp
  moreover from direct_probe_failure_exits [OF h2] d2 c2
  have "fst (find_pg_commands ?w2 no_paths) = Exited 5"
    by simp
  ultimately show ?thesis
    by simp
qed

subsection \<open>The indirect strategy\<close>


lemma set_psql_from_config_bindir_cases:
  assumes "set_psql_from_config_bindir w p c = (ok, p', t)"
  shows "\<not> ok \<Longrightarrow> p' = p"
    and "ok \<Longrightarrow> file_exists w c \<and> returnCode (run_program w [c, ''--bindir'']) = 0
              \<and> (\<exists>bindir. splitLines (stdOut (run_program w [c, ''--bindir''])) 1 = [bindir]
                    \<and> file_exists w (join_path_components w bindir ''psql'')
                    \<and> p' = p\<lparr>psql := strlcpy (join_path_components w bindir ''psql'')
                                             (MAXPGPATH w)\<rparr>)"
  using assms
  by (auto simp: set_psql_from_config_bindir_def Let_def length_Suc_conv split: if_splits)






text \<open>
  Claim C3. When the search path holds two or more \<open>pg_config\<close> entries after the removal
  of symbolic-link aliases, the indirect strategy fails and leaves the record as it was.
  Before it fails it runs every candidate with \<open>--version\<close>, in the order of the search
  path. Its records at the levels info and warning are: the heading, then one record for each
  candidate in order (at info with the path and the version when the probe of the candidate
  succeeds, at warning when it fails, the enumeration going on with the next candidate), then
  the hint to export \<open>PG_CONFIG\<close>.
\<close>

theorem ambiguous_candidates_reported:
  assumes sp: "search_path w ''pg_config'' = Some all_pg_configs"
    and dd: "search_path_deduplicate_symlinks w all_pg_configs = Some pg_configs"
    and two: "2 \<le> length pg_configs"
  shows "\<not> fst (set_psql_from_pg_config w p)
       \<and> fst (snd (set_psql_from_pg_config w p)) = p
       \<and> filter is_Run (snd (snd (set_psql_from_pg_config w p)))
           = map (\<lambda>m. Run [strlcpy m (MAXPGPATH w), ''--version'']) pg_configs
       \<and> filter (\<lambda>e. is_Log_at LOG_INFO e \<or> is_Log_at LOG_WARN e)
                (snd (snd (set_psql_from_pg_config w p)))
           = Log LOG_INFO ''Found more than one pg_config entry in current PATH:''
             # map (\<lambda>m. let candidate = strlcpy m (MAXPGPATH w);
                            prog = run_program w [candidate, ''--version'']
                        in if returnCode prog = 0 then
                             (case parse_version_number w (stdOut prog) (PG_VERSION_STRING_MAX w) of
                                Some (v, n) \<Rightarrow>
                                  Log LOG_INFO (''Found \"'' @ candidate @ ''\" for pg version ''
                                                @ strlcpy v (PG_VERSION_STRING_MAX w))
                              | None \<Rightarrow>
                                  Log LOG_WARN (''Failed to get version info from '' @ candidate
                                                @ '' --version''))
                           else Log LOG_WARN (''Failed to get version info from '' @ candidate
                                              @ '' --version''))
                   pg_configs
             @ [Log LOG_INFO ''HINT: export PG_CONFIG to a specific pg_config entry'']"
proof -
  obtain n where "length pg_configs = Suc (Suc n)"
    using two by (metis Suc_le_D numeral_2_eq_2 Suc_le_mono)
  then have eq: "set_psql_from_pg_config w p =
     (False, p,
      [SearchPath ''pg_config'', DeduplicateSymlinks all_pg_configs,
       Log LOG_INFO ''Found more than one pg_config entry in current PATH:'']
      @ set_psql_from_pg_config_loop w pg_configs
      @ [Log LOG_INFO ''HINT: export PG_CONFIG to a specific pg_config entry''])"
    using sp dd by (simp add: set_psql_from_pg_config_def)
  have runs: "filter is_Run (set_psql_from_pg_config_loop w ms)
     = map (\<lambda>m. Run [strlcpy m (MAXPGPATH w), ''--version'']) ms" for ms
    by (induction ms)
       (auto simp: psql_version_def Let_def split: if_splits option.splits prod.splits bool.splits)
  have lines: "filter (\<lambda>e. is_Log_at LOG_INFO e \<or> is_Log_at LOG_WARN e)
                 (set_psql_from_pg_config_loop w ms)
     = map (\<lambda>m. let candidate = strlcpy m (MAXPGPATH w);
                            prog = run_program w [candidate, ''--version'']
                        in if returnCode prog = 0 then
                             (case parse_version_number w (stdOut prog) (PG_VERSION_STRING_MAX w) of
                                Some (v, n) \<Rightarrow>
                                  Log LOG_INFO (''Found \"'' @ candidate @ ''\" for pg version ''
                                                @ strlcpy v (PG_VERSION_STRING_MAX w))
                              | None \<Rightarrow>
                                  Log LOG_WARN (''Failed to get version info from '' @ candidate
                                                @ '' --version''))
                           else Log LOG_WARN (''Failed to get version info from '' @ candidate
                                              @ '' --version'')) ms" for ms
    by (induction ms)
       (auto simp: psql_version_def Let_def split: if_splits option.splits prod.splits bool.splits)
  show ?thesis
    unfolding eq by (simp add: runs lines)
qed

theorem ambiguous_candidates_reported_witness:
  "\<not> fst (set_psql_from_pg_config
            (example_world None None [''/usr/bin/pg_config'', ''/opt/pg/bin/pg_config'']) no_paths)
   \<and> filter (\<lambda>e. is_Log_at LOG_INFO e \<or> is_Log_at LOG_WARN e)
        (snd (snd (set_psql_from_pg_config
            (example_world None None [''/usr/bin/pg_config'', ''/opt/pg/bin/pg_config'']) no_paths)))
     = [Log LOG_INFO ''Found more than one pg_config entry in current PATH:'',
        Log LOG_INFO ''Found \"/usr/bin/pg_config\" for pg version 14.9'',
        Log LOG_WARN ''Failed to get version info from /opt/pg/bin/pg_config --version'',
        Log LOG_INFO ''HINT: export PG_CONFIG to a specific pg_config entry'']"
proof -
  let ?cs = "[''/usr/bin/pg_config'', ''/opt/pg/bin/pg_config'']"
  let ?w = "example_world None None ?cs"
  have sp: "search_path ?w ''pg_config'' = Some ?cs"
    by (simp add: example_defs)
  have dd: "search_path_deduplicate_symlinks ?w ?cs = Some ?cs"
    by (simp add: example_defs)
  have two: "2 \<le> length ?cs"
    by simp
  from ambiguous_candidates_reported [OF sp dd two, of no_paths] show ?thesis
    by (simp add: example_defs)
qed

subsection \<open>After a failed hint\<close>

lemma find_pg_commands_after_failed_hint:
  assumes "set_psql_from_PG_CONFIG w p = (False, p1, t1)"
  shows "find_pg_commands w p =
     (case search_path_first w ''psql'' of
             Some found \<Rightarrow>
               (case psql_version w (p1\<lparr>psql := found\<rparr>) of
                  (False, p2, t2) \<Rightarrow>
                    (Exited (EXIT_CODE_PGCTL w), t1 @ [SearchPathFirst ''psql''] @ t2)
                | (True, p2, t2) \<Rightarrow>
                    (Returned (fst (set_postgres_commands p2)), t1 @ [SearchPathFirst ''psql''] @ t2))
           | None \<Rightarrow>
               (case set_psql_from_pg_config w p1 of
                  (True, p3, t3) \<Rightarrow>
                    (Returned (fst (set_postgres_commands p3)), t1 @ [SearchPathFirst ''psql''] @ t3)
                | (False, p3, t3) \<Rightarrow>
                    (Exited (EXIT_CODE_PGCTL w), t1 @ [SearchPathFirst ''psql''] @ t3)))"
  using assms
  by (simp add: find_pg_commands_def set_postgres_commands_def split: option.splits prod.splits bool.splits)









subsection \<open>The resolved toolset\<close>

lemma psql_version_probed:
  assumes "psql_version w p = (True, p', t)"
  shows "psql p' = psql p
       \<and> returnCode (run_program w [psql p', ''--version'']) = 0
       \<and> (\<exists>v n. parse_version_number w (stdOut (run_program w [psql p', ''--version'']))
                    (PG_VERSION_STRING_MAX w) = Some (v, n)
                \<and> pg_version p' = strlcpy v (PG_VERSION_STRING_MAX w))"
  using assms
  by (auto simp: psql_version_def Let_def split: if_splits option.splits prod.splits)

lemma set_psql_from_config_bindir_checked:
  assumes "set_psql_from_config_bindir w p c = (True, p', t)"
  shows "\<exists>path. file_exists w path \<and> psql p' = strlcpy path (MAXPGPATH w)"
  using set_psql_from_config_bindir_cases(2) [OF assms] by auto

lemma set_psql_from_PG_CONFIG_success:
  assumes "set_psql_from_PG_CONFIG w p = (True, p', t)"
  shows "\<exists>p1 t1 c. set_psql_from_config_bindir w p c = (True, p1, t1)
           \<and> (\<exists>t2. psql_version w p1 = (True, p', t2))"
  using assms unfolding set_psql_from_PG_CONFIG_def
  by (auto split: if_splits option.splits prod.splits bool.splits)

lemma set_psql_from_pg_config_success:
  assumes "set_psql_from_pg_config w p = (True, p', t)"
  shows "\<exists>p1 t1 c. set_psql_from_config_bindir w p c = (True, p1, t1)
           \<and> (\<exists>t2. psql_version w p1 = (True, p', t2))"
  using assms unfolding set_psql_from_pg_config_def
  by (auto split: if_splits option.splits prod.splits bool.splits nat.splits)

lemma find_pg_commands_success:
  assumes "find_pg_commands w p = (Returned r, t)"
  shows "\<exists>q q' t'. psql_version w q = (True, q', t') \<and> r = fst (set_postgres_commands q')
           \<and> ((\<exists>path. file_exists w path \<and> psql q = strlcpy path (MAXPGPATH w))
                \<or> search_path_first w ''psql'' = Some (psql q))"
proof (cases "set_psql_from_PG_CONFIG w p")
  case (fields ok p1 t1)
  show ?thesis
  proof (cases ok)
    case True
    with fields have s: "set_psql_from_PG_CONFIG w p = (True, p1, t1)"
      by simp
    then have r: "r = fst (set_postgres_commands p1)"
      using assms by (simp add: find_pg_commands_def split: prod.splits)
    from set_psql_from_PG_CONFIG_success [OF s]
    obtain p0 t0 c t2 where "set_psql_from_config_bindir w p c = (True, p0, t0)"
        "psql_version w p0 = (True, p1, t2)"
      by blast
    with r set_psql_from_config_bindir_checked show ?thesis
      by blast
  next
    case False
    with fields have failed: "set_psql_from_PG_CONFIG w p = (False, p1, t1)"
      by simp
    show ?thesis
    proof (cases "search_path_first w ''psql''")
      case None
      with assms obtain p3 t3 where s: "set_psql_from_pg_config w p1 = (True, p3, t3)"
          and r: "r = fst (set_postgres_commands p3)"
        unfolding find_pg_commands_after_failed_hint [OF failed]
        by (auto split: prod.splits bool.splits)
      from set_psql_from_pg_config_success [OF s]
      obtain p0 t0 c t2 where "set_psql_from_config_bindir w p1 c = (True, p0, t0)"
        "psql_version w p0 = (True, p3, t2)"
        by blast
      with r set_psql_from_config_bindir_checked show ?thesis
        by blast
    next
      case (Some found)
      with assms obtain p2 t2 where s: "psql_version w (p1\<lparr>psql := found\<rparr>) = (True, p2, t2)"
          and r: "r = fst (set_postgres_commands p2)"
        unfolding find_pg_commands_after_failed_hint [OF failed]
        by (auto split: prod.splits bool.splits)
      have "search_path_first w ''psql'' = Some (psql (p1\<lparr>psql := found\<rparr>))"
        using Some by simp
      with s r show ?thesis
        by blast
    qed
  qed
qed

text \<open>
  The claim C5 as stated (after a successful resolution all three paths exist) fails on the
  example installation, where \<open>psql\<close> is installed without \<open>pg_dump\<close> and
  \<open>pg_restore\<close>: the resolution succeeds and the two derived paths do not exist.
\<close>

theorem resolved_toolset_counterexample:
  "fst (find_pg_commands (example_world None (Some ''/usr/bin/psql'') []) no_paths)
     = Returned \<lparr>psql = ''/usr/bin/psql'', pg_dump = ''/usr/bin/pg_dump'',
                 pg_restore = ''/usr/bin/pg_restore'', pg_version = ''14.9''\<rparr>
   \<and> \<not> file_exists (example_world None (Some ''/usr/bin/psql'') []) ''/usr/bin/pg_dump''
   \<and> \<not> file_exists (example_world None (Some ''/usr/bin/psql'') []) ''/usr/bin/pg_restore''"
  by (simp add: find_pg_commands_def set_psql_from_PG_CONFIG_def psql_version_def
        set_postgres_commands_def path_in_same_directory_def example_defs)

text \<open>
  Claim C5, as the code has it. After a successful resolution the dump and restore paths are
  the siblings of the \<open>psql\<close> path, derived with no existence check; the
  \<open>psql\<close> path is the copy of a path that was checked to exist (explicit hint,
  indirect strategy) or the first \<open>psql\<close> of the search path (direct strategy); the
  run of that \<open>psql\<close> with \<open>--version\<close> ended with status zero and the
  version string is what was parsed from its output, as \<open>strlcpy\<close> stores it. The
  version string is not empty when the parser yields no empty token and the version buffer
  has room for a character.
\<close>

theorem resolved_toolset:
  assumes resolved: "find_pg_commands w p = (Returned r, t)"
    and token: "\<forall>out v n. parse_version_number w out (PG_VERSION_STRING_MAX w) = Some (v, n)
                  \<longrightarrow> v \<noteq> []"
    and room: "1 < PG_VERSION_STRING_MAX w"
  shows "pg_dump r = path_in_same_directory (psql r) ''pg_dump''
       \<and> pg_restore r = path_in_same_directory (psql r) ''pg_restore''
       \<and> ((\<exists>path. file_exists w path \<and> psql r = strlcpy path (MAXPGPATH w))
            \<or> search_path_first w ''psql'' = Some (psql r))
       \<and> returnCode (run_program w [psql r, ''--version'']) = 0
       \<and> (\<exists>v n. parse_version_number w (stdOut (run_program w [psql r, ''--version'']))
                    (PG_VERSION_STRING_MAX w) = Some (v, n)
                \<and> pg_version r = strlcpy v (PG_VERSION_STRING_MAX w))
       \<and> pg_version r \<noteq> []"
proof -
  from find_pg_commands_success [OF resolved]
  obtain q q' t' where pv: "psql_version w q = (True, q', t')"
      and r: "r = fst (set_postgres_commands q')"
      and src: "(\<exists>path. file_exists w path \<and> psql q = strlcpy path (MAXPGPATH w))
                \<or> search_path_first w ''psql'' = Some (psql q)"
    by blast
  from psql_version_probed [OF pv]
  obtain v n where same: "psql q' = psql q"
      and rc: "returnCode (run_program w [psql q', ''--version'']) = 0"
      and parsed: "parse_version_number w (stdOut (run_program w [psql q', ''--version'']))
                    (PG_VERSION_STRING_MAX w) = Some (v, n)"
      and ver: "pg_version q' = strlcpy v (PG_VERSION_STRING_MAX w)"
    by blast
  have fields: "psql r = psql q'" "pg_version r = pg_version q'"
      "pg_dump r = path_in_same_directory (psql q') ''pg_dump''"
      "pg_restore r = path_in_same_directory (psql q') ''pg_restore''"
    using r by (simp_all add: set_postgres_commands_def)
  from token parsed have "v \<noteq> []"
    by blast
  with room have "strlcpy v (PG_VERSION_STRING_MAX w) \<noteq> []"
    by (cases v) (simp_all add: strlcpy_def)
  with fields same rc parsed ver src show ?thesis
    by auto
qed

theorem resolved_toolset_witness:
  "find_pg_commands (example_world None (Some ''/usr/bin/psql'') []) no_paths
     = (Returned \<lparr>psql = ''/usr/bin/psql'', pg_dump = ''/usr/bin/pg_dump'',
                 pg_restore = ''/usr/bin/pg_restore'', pg_version = ''14.9''\<rparr>,
        [EnvExists ''PG_CONFIG'', SearchPathFirst ''psql'', Run [''/usr/bin/psql'', ''--version'']])
   \<and> path_in_same_directory ''/usr/bin/psql'' ''pg_dump'' = ''/usr/bin/pg_dump''
   \<and> path_in_same_directory ''/usr/bin/psql'' ''pg_restore'' = ''/usr/bin/pg_restore''
   \<and> returnCode (run_program (example_world None (Some ''/usr/bin/psql'') [])
                    [''/usr/bin/psql'', ''--version'']) = 0"
proof -
  let ?w = "example_world None (Some ''/usr/bin/psql'') []"
  let ?r = "\<lparr>psql = ''/usr/bin/psql'', pg_dump = ''/usr/bin/pg_dump'',
                 pg_restore = ''/usr/bin/pg_restore'', pg_version = ''14.9''\<rparr>"
  have resolved: "find_pg_commands ?w no_paths
     = (Returned ?r,
        [EnvExists ''PG_CONFIG'', SearchPathFirst ''psql'', Run [''/usr/bin/psql'', ''--version'']])"
    by (simp add: find_pg_commands_def set_psql_from_PG_CONFIG_def psql_version_def
        set_postgres_commands_def path_in_same_directory_def example_defs)
  have token: "\<forall>out v n. parse_version_number ?w out (PG_VERSION_STRING_MAX ?w) = Some (v, n)
                  \<longrightarrow> v \<noteq> []"
    by (auto simp: example_world_def example_parse_def split: if_splits)
  have room: "1 < PG_VERSION_STRING_MAX ?w"
    by (simp add: example_world_def)
  from resolved_toolset [OF resolved token room] resolved show ?thesis
    by simp
qed

subsection \<open>Sibling tools\<close>

lemma path_in_same_directory_sibling:
  assumes "CHR ''/'' \<notin> set file"
  shows "path_in_same_directory (dir @ ''/'' @ file) name = dir @ ''/'' @ name"
proof -
  have "dropWhile (\<lambda>c. c \<noteq> CHR ''/'') (rev file @ CHR ''/'' # rev dir) = CHR ''/'' # rev dir"
    using assms by (subst dropWhile_append2) auto
  then show ?thesis
    by (simp add: path_in_same_directory_def)
qed

text \<open>
  Claim C8. After a successful resolution, whichever strategy fixed the \<open>psql\<close> path,
  the dump and restore paths are that path with its file name replaced by \<open>pg_dump\<close>
  and \<open>pg_restore\<close>, in the same directory. The derivation
  (\<open>set_postgres_commands\<close>) changes these two fields only and makes no call into the
  operating system, so no existence check on the derived paths.
\<close>

theorem sibling_tools_derived:
  assumes "find_pg_commands w p = (Returned r, t)"
  shows "pg_dump r = path_in_same_directory (psql r) ''pg_dump''
       \<and> pg_restore r = path_in_same_directory (psql r) ''pg_restore''
       \<and> (\<forall>dir file. psql r = dir @ ''/'' @ file \<and> CHR ''/'' \<notin> set file
             \<longrightarrow> pg_dump r = dir @ ''/pg_dump'' \<and> pg_restore r = dir @ ''/pg_restore'')
       \<and> (\<forall>q. snd (set_postgres_commands q) = []
               \<and> fst (set_postgres_commands q)
                   = q\<lparr>pg_dump := path_in_same_directory (psql q) ''pg_dump'',
                       pg_restore := path_in_same_directory (psql q) ''pg_restore''\<rparr>)"
proof -
  from find_pg_commands_success [OF assms]
  obtain q' where r: "r = fst (set_postgres_commands q')"
    by blast
  then have d: "pg_dump r = path_in_same_directory (psql r) ''pg_dump''"
    and e: "pg_restore r = path_in_same_directory (psql r) ''pg_restore''"
    by (simp_all add: set_postgres_commands_def)
  have "pg_dump r = dir @ ''/pg_dump'' \<and> pg_restore r = dir @ ''/pg_restore''"
    if "psql r = dir @ ''/'' @ name \<and> CHR ''/'' \<notin> set name" for dir name
    using that d e path_in_same_directory_sibling [of name dir] by simp
  then show ?thesis
    using d e by (simp add: set_postgres_commands_def)
qed

theorem sibling_tools_derived_witness:
  "pg_dump (case fst (find_pg_commands (example_world None (Some ''/usr/bin/psql'') []) no_paths) of
              Returned r \<Rightarrow> r | Exited code \<Rightarrow> no_paths) = ''/usr/bin/pg_dump''
   \<and> pg_restore (case fst (find_pg_commands (example_world None (Some ''/usr/bin/psql'') [])
                             no_paths) of
              Returned r \<Rightarrow> r | Exited code \<Rightarrow> no_paths) = ''/usr/bin/pg_restore''"
proof -
  let ?w = "example_world None (Some ''/usr/bin/psql'') []"
  obtain r t where res: "find_pg_commands ?w no_paths = (Returned r, t)"
      and p: "psql r = ''/usr/bin'' @ ''/'' @ ''psql''"
    by (simp add: find_pg_commands_def set_psql_from_PG_CONFIG_def psql_version_def
        set_postgres_commands_def example_defs)
  have "CHR ''/'' \<notin> set ''psql''"
    by simp
  with sibling_tools_derived [OF res] p
  have "pg_dump r = ''/usr/bin'' @ ''/pg_dump'' \<and> pg_restore r = ''/usr/bin'' @ ''/pg_restore''"
    by blast
  then show ?thesis
    using res by simp
qed

subsection \<open>The output of \<open>pg_config --bindir\<close>\<close>

text \<open>
  Claim C7 at an output of two lines. On the example installation
  \<open>/opt/pg/bin/pg_config --bindir\<close> prints two lines. \<open>splitLines\<close> is
  given room for one line and reports one, the test for exactly one line passes, the first
  line is taken for the directory and the resolution succeeds. An output with no line is
  rejected (\<open>pg_config_no_line_rejected\<close> below).
\<close>

theorem pg_config_two_lines_accepted:
  "stdOut (run_program (example_world (Some ''/opt/pg/bin/pg_config'') None [])
             [''/opt/pg/bin/pg_config'', ''--bindir''])
     = Some ''/opt/pg/bin\<newline>/opt/pg/lib\<newline>''
   \<and> lines_of ''/opt/pg/bin\<newline>/opt/pg/lib\<newline>'' = [''/opt/pg/bin'', ''/opt/pg/lib'']
   \<and> set_psql_from_config_bindir (example_world (Some ''/opt/pg/bin/pg_config'') None [])
        no_paths ''/opt/pg/bin/pg_config''
     = (True,
        \<lparr>psql = ''/opt/pg/bin/psql'', pg_dump = [], pg_restore = [], pg_version = []\<rparr>,
        [FileExists ''/opt/pg/bin/pg_config'', Run [''/opt/pg/bin/pg_config'', ''--bindir''],
         FileExists ''/opt/pg/bin/psql''])
   \<and> fst (find_pg_commands (example_world (Some ''/opt/pg/bin/pg_config'') None []) no_paths)
     = Returned \<lparr>psql = ''/opt/pg/bin/psql'', pg_dump = ''/opt/pg/bin/pg_dump'',
                 pg_restore = ''/opt/pg/bin/pg_restore'', pg_version = ''14.9''\<rparr>"
  by (simp add: find_pg_commands_def set_psql_from_PG_CONFIG_def set_psql_from_config_bindir_def
        psql_version_def set_postgres_commands_def path_in_same_directory_def splitLines_def
        Let_def example_defs)

lemma pg_config_no_line_rejected:
  assumes "file_exists w c" and "returnCode (run_program w [c, ''--bindir'']) = 0"
    and "splitLines (stdOut (run_program w [c, ''--bindir''])) 1 = []"
  shows "set_psql_from_config_bindir w p c =
           (False, p, [FileExists c, Run [c, ''--bindir''],
                       Log LOG_ERROR ''Unable to parse output from pg_config --bindir''])"
  using assms by (simp add: set_psql_from_config_bindir_def)

lemma splitLines_one_line:
  "length (splitLines buffer 1) \<le> 1"
  by (simp add: splitLines_def split: option.splits)

subsection \<open>The dump invocation\<close>

lemma pg_dump_db_cases:
  "pg_dump_db w p pguri section_name filename =
     (let args = [pg_dump p, ''-Fc'', ''-d'', pguri, ''--section'', section_name,
                  ''--file'', filename];
          full = program_command_line w args;
          command_log = Log LOG_INFO (if BUFSIZE w \<le> length full
                                      then take (BUFSIZE w - 1) full @ ''...''
                                      else take (BUFSIZE w - 1) full);
          program = execute_subprogram w args False
      in if returnCode program \<noteq> 0 then
           (False,
            [Setenv ''PGCONNECT_TIMEOUT'' (POSTGRES_CONNECT_TIMEOUT w), command_log, Run args,
             Log LOG_ERROR (''Failed to run pg_dump: exit code '' @ printf_d (returnCode program))]
            @ log_program_output w program LOG_ERROR LOG_ERROR)
         else
           (True,
            [Setenv ''PGCONNECT_TIMEOUT'' (POSTGRES_CONNECT_TIMEOUT w), command_log, Run args]))"
  by (simp add: pg_dump_db_def snprintf_program_command_line_def Let_def)

lemma pg_dump_db_command_log:
  "snd (pg_dump_db w p pguri section_name filename) ! 1 =
     Log LOG_INFO
       (if BUFSIZE w \<le> length (program_command_line w
                                  [pg_dump p, ''-Fc'', ''-d'', pguri, ''--section'', section_name,
                                   ''--file'', filename])
        then take (BUFSIZE w - 1)
               (program_command_line w
                  [pg_dump p, ''-Fc'', ''-d'', pguri, ''--section'', section_name,
                   ''--file'', filename]) @ ''...''
        else take (BUFSIZE w - 1)
               (program_command_line w
                  [pg_dump p, ''-Fc'', ''-d'', pguri, ''--section'', section_name,
                   ''--file'', filename]))"
  by (simp add: pg_dump_db_cases Let_def)

text \<open>
  The claim C6 as stated (the logged line of a truncated command does not exceed the buffer
  capacity) fails on the example installation for a connection string of 1100 characters: the
  logged line is longer than \<open>BUFSIZE\<close>.
\<close>

theorem command_line_logged_counterexample:
  "BUFSIZE (example_world None None [])
     \<le> length (program_command_line (example_world None None [])
                 [''/opt/pg/bin/pg_dump'', ''-Fc'', ''-d'', replicate 1100 (CHR ''x''),
                  ''--section'', ''pre-data'', ''--file'', ''/tmp/pre.dump''])
   \<and> BUFSIZE (example_world None None [])
       < length (log_text (snd (pg_dump_db (example_world None None [])
                                  \<lparr>psql = ''/opt/pg/bin/psql'', pg_dump = ''/opt/pg/bin/pg_dump'',
                                   pg_restore = ''/opt/pg/bin/pg_restore'', pg_version = ''14.9''\<rparr>
                                  (replicate 1100 (CHR ''x'')) ''pre-data'' ''/tmp/pre.dump'') ! 1))"
  unfolding pg_dump_db_command_log
  by (simp add: example_world_def)

text \<open>
  Claim C6, as the code has it. The second event of \<open>pg_dump_db\<close> is the record, at
  level info, of the command line. When the full text of the command line is shorter than
  \<open>BUFSIZE\<close> the record is the full text. When it is not, the record is the first
  \<open>BUFSIZE - 1\<close> characters of the text followed by three dots: the prefix fits the
  buffer, and the record is \<open>BUFSIZE + 2\<close> characters long.
\<close>

theorem command_line_logged:
  "is_Log_at LOG_INFO (snd (pg_dump_db w p pguri section_name filename) ! 1)
   \<and> (length (program_command_line w
                [pg_dump p, ''-Fc'', ''-d'', pguri, ''--section'', section_name,
                 ''--file'', filename]) < BUFSIZE w
        \<longrightarrow> log_text (snd (pg_dump_db w p pguri section_name filename) ! 1)
              = program_command_line w
                  [pg_dump p, ''-Fc'', ''-d'', pguri, ''--section'', section_name,
                   ''--file'', filename])
   \<and> (0 < BUFSIZE w
        \<and> BUFSIZE w \<le> length (program_command_line w
                                 [pg_dump p, ''-Fc'', ''-d'', pguri, ''--section'', section_name,
                                  ''--file'', filename])
        \<longrightarrow> log_text (snd (pg_dump_db w p pguri section_name filename) ! 1)
              = take (BUFSIZE w - 1)
                  (program_command_line w
                     [pg_dump p, ''-Fc'', ''-d'', pguri, ''--section'', section_name,
                      ''--file'', filename]) @ ''...''
            \<and> prefix (take (BUFSIZE w - 1)
                         (program_command_line w
                            [pg_dump p, ''-Fc'', ''-d'', pguri, ''--section'', section_name,
                             ''--file'', filename]))
                 (program_command_line w
                    [pg_dump p, ''-Fc'', ''-d'', pguri, ''--section'', section_name,
                     ''--file'', filename])
            \<and> length (take (BUFSIZE w - 1)
                         (program_command_line w
                            [pg_dump p, ''-Fc'', ''-d'', pguri, ''--section'', section_name,
                             ''--file'', filename])) < BUFSIZE w
            \<and> length (log_text (snd (pg_dump_db w p pguri section_name filename) ! 1))
                = BUFSIZE w + 2)"
  unfolding pg_dump_db_command_log
  by (auto simp: take_is_prefix)

theorem command_line_logged_witness:
  "log_text (snd (pg_dump_db (example_world None None [])
                    \<lparr>psql = ''/opt/pg/bin/psql'', pg_dump = ''/opt/pg/bin/pg_dump'',
                     pg_restore = ''/opt/pg/bin/pg_restore'', pg_version = ''14.9''\<rparr>
                    ''postgres://db'' ''pre-data'' ''/tmp/pre.dump'') ! 1)
     = '' /opt/pg/bin/pg_dump -Fc -d postgres://db --section pre-data --file /tmp/pre.dump''
   \<and> length (log_text (snd (pg_dump_db (example_world None None [])
                    \<lparr>psql = ''/opt/pg/bin/psql'', pg_dump = ''/opt/pg/bin/pg_dump'',
                     pg_restore = ''/opt/pg/bin/pg_restore'', pg_version = ''14.9''\<rparr>
                    (replicate 1100 (CHR ''x'')) ''pre-data'' ''/tmp/pre.dump'') ! 1))
     = 1026"
proof -
  let ?w = "example_world None None []"
  let ?p = "\<lparr>psql = ''/opt/pg/bin/psql'', pg_dump = ''/opt/pg/bin/pg_dump'',
             pg_restore = ''/opt/pg/bin/pg_restore'', pg_version = ''14.9''\<rparr>"
  have short: "length (program_command_line ?w
                 [pg_dump ?p, ''-Fc'', ''-d'', ''postgres://db'', ''--section'', ''pre-data'',
                  ''--file'', ''/tmp/pre.dump'']) < BUFSIZE ?w"
    by (simp add: example_world_def)
  have long: "0 < BUFSIZE ?w
      \<and> BUFSIZE ?w \<le> length (program_command_line ?w
                 [pg_dump ?p, ''-Fc'', ''-d'', replicate 1100 (CHR ''x''), ''--section'',
                  ''pre-data'', ''--file'', ''/tmp/pre.dump''])"
    by (simp add: example_world_def)
  have size: "BUFSIZE ?w + 2 = 1026"
    by (simp add: example_world_def)
  from command_line_logged [of ?w ?p "''postgres://db''" "''pre-data''" "''/tmp/pre.dump''"] short
  have "log_text (snd (pg_dump_db ?w ?p ''postgres://db'' ''pre-data'' ''/tmp/pre.dump'') ! 1)
          = program_command_line ?w
                 [pg_dump ?p, ''-Fc'', ''-d'', ''postgres://db'', ''--section'', ''pre-data'',
                  ''--file'', ''/tmp/pre.dump'']"
    by blast
  moreover
  from command_line_logged [of ?w ?p "replicate 1100 (CHR ''x'')" "''pre-data''"
      "''/tmp/pre.dump''"] long
  have "length (log_text (snd (pg_dump_db ?w ?p (replicate 1100 (CHR ''x'')) ''pre-data''
                                 ''/tmp/pre.dump'') ! 1)) = BUFSIZE ?w + 2"
    by blast
  ultimately show ?thesis
    using size by (simp add: example_world_def)
qed

lemma decimal_digit: "n < 10 \<Longrightarrow> decimal n = [''0123456789'' ! n]"
  by (simp add: decimal.simps)

text \<open>
  Claim C9. \<open>pg_dump_db\<close> returns true exactly when the exit status of
  \<open>pg_dump\<close> is zero. When the status is not zero, its records at level error are the
  record of the exit code, then one record for each line of the captured standard output, then
  one for each line of the captured standard error, in order, at most \<open>BUFSIZE\<close> lines
  of each. When the status is zero there is no record at level error.
\<close>

theorem pg_dump_db_reports_failure:
  "(fst (pg_dump_db w p pguri section_name filename) \<longleftrightarrow>
      returnCode (execute_subprogram w
                    [pg_dump p, ''-Fc'', ''-d'', pguri, ''--section'', section_name,
                     ''--file'', filename] False) = 0)
   \<and> (returnCode (execute_subprogram w
                     [pg_dump p, ''-Fc'', ''-d'', pguri, ''--section'', section_name,
                      ''--file'', filename] False) \<noteq> 0
        \<longrightarrow> filter (is_Log_at LOG_ERROR) (snd (pg_dump_db w p pguri section_name filename))
              = Log LOG_ERROR
                  (''Failed to run pg_dump: exit code ''
                   @ printf_d (returnCode (execute_subprogram w
                                  [pg_dump p, ''-Fc'', ''-d'', pguri, ''--section'', section_name,
                                   ''--file'', filename] False)))
                # map (Log LOG_ERROR)
                    (case stdOut (execute_subprogram w
                                    [pg_dump p, ''-Fc'', ''-d'', pguri, ''--section'',
                                     section_name, ''--file'', filename] False) of
                       None \<Rightarrow> []
                     | Some out \<Rightarrow> take (BUFSIZE w) (lines_of out))
                @ map (Log LOG_ERROR)
                    (case stdErr (execute_subprogram w
                                    [pg_dump p, ''-Fc'', ''-d'', pguri, ''--section'',
                                     section_name, ''--file'', filename] False) of
                       None \<Rightarrow> []
                     | Some err \<Rightarrow> take (BUFSIZE w) (lines_of err)))
   \<and> (returnCode (execute_subprogram w
                     [pg_dump p, ''-Fc'', ''-d'', pguri, ''--section'', section_name,
                      ''--file'', filename] False) = 0
        \<longrightarrow> filter (is_Log_at LOG_ERROR) (snd (pg_dump_db w p pguri section_name filename))
              = [])"
proof -
  have all_error: "filter (is_Log_at LOG_ERROR) (map (Log LOG_ERROR) ls) = map (Log LOG_ERROR) ls"
    for ls
    by (induction ls) simp_all
  show ?thesis
    unfolding pg_dump_db_cases
    by (auto simp: Let_def log_program_output_def splitLines_def all_error split: option.splits)
qed

theorem pg_dump_db_reports_failure_witness:
  "\<not> fst (pg_dump_db (example_world None None [])
            \<lparr>psql = ''/opt/pg/bin/psql'', pg_dump = ''/opt/pg/bin/pg_dump'',
             pg_restore = ''/opt/pg/bin/pg_restore'', pg_version = ''14.9''\<rparr>
            ''postgres://down'' ''pre-data'' ''/tmp/pre.dump'')
   \<and> filter (is_Log_at LOG_ERROR)
        (snd (pg_dump_db (example_world None None [])
            \<lparr>psql = ''/opt/pg/bin/psql'', pg_dump = ''/opt/pg/bin/pg_dump'',
             pg_restore = ''/opt/pg/bin/pg_restore'', pg_version = ''14.9''\<rparr>
            ''postgres://down'' ''pre-data'' ''/tmp/pre.dump''))
     = [Log LOG_ERROR ''Failed to run pg_dump: exit code 1'',
        Log LOG_ERROR ''pg_dump: dumping'',
        Log LOG_ERROR ''pg_dump: error: connection failed'',
        Log LOG_ERROR ''pg_dump: detail'']
   \<and> fst (pg_dump_db (example_world None None [])
            \<lparr>psql = ''/opt/pg/bin/psql'', pg_dump = ''/opt/pg/bin/pg_dump'',
             pg_restore = ''/opt/pg/bin/pg_restore'', pg_version = ''14.9''\<rparr>
            ''postgres://db'' ''pre-data'' ''/tmp/pre.dump'')
   \<and> filter (is_Log_at LOG_ERROR)
        (snd (pg_dump_db (example_world None None [])
            \<lparr>psql = ''/opt/pg/bin/psql'', pg_dump = ''/opt/pg/bin/pg_dump'',
             pg_restore = ''/opt/pg/bin/pg_restore'', pg_version = ''14.9''\<rparr>
            ''postgres://db'' ''pre-data'' ''/tmp/pre.dump''))
     = []"
proof -
  let ?w = "example_world None None []"
  let ?p = "\<lparr>psql = ''/opt/pg/bin/psql'', pg_dump = ''/opt/pg/bin/pg_dump'',
             pg_restore = ''/opt/pg/bin/pg_restore'', pg_version = ''14.9''\<rparr>"
  have down: "execute_subprogram ?w
                [pg_dump ?p, ''-Fc'', ''-d'', ''postgres://down'', ''--section'', ''pre-data'',
                 ''--file'', ''/tmp/pre.dump''] False
        = \<lparr>returnCode = 1, error = 0, stdOut = Some ''pg_dump: dumping\<newline>'',
         stdErr = Some ''pg_dump: error: connection failed\<newline>pg_dump: detail\<newline>''\<rparr>"
    by (simp add: example_world_def example_run_def)
  have up: "execute_subprogram ?w
                [pg_dump ?p, ''-Fc'', ''-d'', ''postgres://db'', ''--section'', ''pre-data'',
                 ''--file'', ''/tmp/pre.dump''] False
        = \<lparr>returnCode = 0, error = 0, stdOut = None, stdErr = None\<rparr>"
    by (simp add: example_world_def example_run_def)
  have room: "BUFSIZE ?w = 1024"
    by (simp add: example_world_def)
  have code: "printf_d 1 = ''1''"
    by (simp add: printf_d_def decimal_digit)
  from pg_dump_db_reports_failure [of ?w ?p "''postgres://down''" "''pre-data''"
      "''/tmp/pre.dump''"]
  have failing: "\<not> fst (pg_dump_db ?w ?p ''postgres://down'' ''pre-data'' ''/tmp/pre.dump'')
      \<and> filter (is_Log_at LOG_ERROR)
            (snd (pg_dump_db ?w ?p ''postgres://down'' ''pre-data'' ''/tmp/pre.dump''))
          = [Log LOG_ERROR ''Failed to run pg_dump: exit code 1'',
             Log LOG_ERROR ''pg_dump: dumping'',
             Log LOG_ERROR ''pg_dump: error: connection failed'',
             Log LOG_ERROR ''pg_dump: detail'']"
    unfolding down room by (simp add: code)
  from pg_dump_db_reports_failure [of ?w ?p "''postgres://db''" "''pre-data''" "''/tmp/pre.dump''"]
  have passing: "fst (pg_dump_db ?w ?p ''postgres://db'' ''pre-data'' ''/tmp/pre.dump'')
      \<and> filter (is_Log_at LOG_ERROR)
            (snd (pg_dump_db ?w ?p ''postgres://db'' ''pre-data'' ''/tmp/pre.dump''))
          = []"
    unfolding up by simp
  from failing passing show ?thesis
    by simp
qed

end
